theory Spec2Isabelle
  imports Main
begin

section \<open>Text and values\<close>

text \<open>
  A Python \<open>str\<close> is a sequence of Unicode code points, and slicing (\<open>s[:80]\<close>) counts
  code points. Text is therefore a list of code points. Dictionary keys, field names and
  collection names of the program are ASCII and stay of type \<open>string\<close>.
\<close>

type_synonym ustr = "nat list"

definition ascii :: "string \<Rightarrow> ustr" where
  "ascii s = map of_char s"

text \<open>
  The values that travel in a decoded JSON body and in a stored document: \<open>None\<close>/null,
  booleans, integers, text and arrays. Floating-point numbers and nested objects are outside
  this fragment.
\<close>

datatype pyval = VNone | VBool bool | VInt int | VStr ustr | VList "pyval list"

type_synonym pydict = "(string \<times> pyval) list"

text \<open>\<open>d.get(k)\<close> on a keyword dictionary.\<close>

definition get :: "pydict \<Rightarrow> string \<Rightarrow> pyval option" where
  "get d k = map_of d k"

section \<open>The validation library\<close>

text \<open>
  \<open>schemas.py\<close> declares its fields with pydantic types. What the library itself decides is
  taken as a parameter: the lax conversion of a value of another type into \<open>str\<close>, \<open>int\<close>
  or \<open>bool\<close>, the grammars of \<open>EmailStr\<close> and \<open>HttpUrl\<close> (each returns the normalised text
  of an accepted input), and the store's regular-expression engine for patterns beyond the
  fragment interpreted below.
\<close>

record libs =
  coerce_str :: "pyval \<Rightarrow> ustr option"
  coerce_int :: "pyval \<Rightarrow> int option"
  coerce_bool :: "pyval \<Rightarrow> bool option"
  parse_email :: "ustr \<Rightarrow> ustr option"
  parse_url :: "ustr \<Rightarrow> ustr option"
  regex_engine :: "ustr \<Rightarrow> ustr \<Rightarrow> ustr \<Rightarrow> bool"

datatype reason = Missing | WrongType | BelowMinimum | AboveMaximum | BadEmail | BadUrl

type_synonym field_error = "string \<times> reason"

subsection \<open>Field types\<close>

text \<open>A value of the declared type is accepted as it is; any other value goes to the
  library's conversion.\<close>

definition str_type :: "libs \<Rightarrow> pyval \<Rightarrow> reason + ustr" where
  "str_type L v =
     (case v of
        VStr s \<Rightarrow> Inr s
      | _ \<Rightarrow> (case coerce_str L v of Some s \<Rightarrow> Inr s | None \<Rightarrow> Inl WrongType))"

definition int_type :: "libs \<Rightarrow> pyval \<Rightarrow> reason + int" where
  "int_type L v =
     (case v of
        VInt n \<Rightarrow> Inr n
      | _ \<Rightarrow> (case coerce_int L v of Some n \<Rightarrow> Inr n | None \<Rightarrow> Inl WrongType))"

definition bool_type :: "libs \<Rightarrow> pyval \<Rightarrow> reason + bool" where
  "bool_type L v =
     (case v of
        VBool b \<Rightarrow> Inr b
      | _ \<Rightarrow> (case coerce_bool L v of Some b \<Rightarrow> Inr b | None \<Rightarrow> Inl WrongType))"

text \<open>\<open>Field(..., ge=lo)\<close> and \<open>Field(..., ge=lo, le=hi)\<close> on an integer.\<close>

definition int_ge :: "libs \<Rightarrow> int \<Rightarrow> pyval \<Rightarrow> reason + int" where
  "int_ge L lo v =
     (case int_type L v of
        Inl e \<Rightarrow> Inl e
      | Inr n \<Rightarrow> if lo \<le> n then Inr n else Inl BelowMinimum)"

definition int_range :: "libs \<Rightarrow> int \<Rightarrow> int \<Rightarrow> pyval \<Rightarrow> reason + int" where
  "int_range L lo hi v =
     (case int_type L v of
        Inl e \<Rightarrow> Inl e
      | Inr n \<Rightarrow> if n < lo then Inl BelowMinimum
               else if hi < n then Inl AboveMaximum
               else Inr n)"

definition email_type :: "libs \<Rightarrow> pyval \<Rightarrow> reason + ustr" where
  "email_type L v =
     (case v of
        VStr s \<Rightarrow> (case parse_email L s of Some e \<Rightarrow> Inr e | None \<Rightarrow> Inl BadEmail)
      | _ \<Rightarrow> Inl WrongType)"

definition url_type :: "libs \<Rightarrow> pyval \<Rightarrow> reason + ustr" where
  "url_type L v =
     (case v of
        VStr s \<Rightarrow> (case parse_url L s of Some u \<Rightarrow> Inr u | None \<Rightarrow> Inl BadUrl)
      | _ \<Rightarrow> Inl WrongType)"

text \<open>\<open>Optional[T]\<close>: \<open>None\<close> is accepted, anything else is validated as \<open>T\<close>.\<close>

definition optional :: "(pyval \<Rightarrow> reason + 'a) \<Rightarrow> pyval \<Rightarrow> reason + 'a option" where
  "optional ty v =
     (case v of
        VNone \<Rightarrow> Inr None
      | _ \<Rightarrow> (case ty v of Inl e \<Rightarrow> Inl e | Inr x \<Rightarrow> Inr (Some x)))"

text \<open>\<open>List[T]\<close>: an array whose items all validate as \<open>T\<close>; the first item that fails gives
  the reason.\<close>

fun each :: "(pyval \<Rightarrow> reason + 'a) \<Rightarrow> pyval list \<Rightarrow> reason + 'a list" where
  "each ty [] = Inr []"
| "each ty (v # vs) =
     (case ty v of
        Inl e \<Rightarrow> Inl e
      | Inr x \<Rightarrow> (case each ty vs of Inl e \<Rightarrow> Inl e | Inr xs \<Rightarrow> Inr (x # xs)))"

definition list_type :: "(pyval \<Rightarrow> reason + 'a) \<Rightarrow> pyval \<Rightarrow> reason + 'a list" where
  "list_type ty v = (case v of VList vs \<Rightarrow> each ty vs | _ \<Rightarrow> Inl WrongType)"

subsection \<open>Field presence\<close>

text \<open>\<open>Field(...)\<close>: the key must be there. \<open>Field(default)\<close>: an absent key takes the
  default, which is not validated.\<close>

definition required ::
  "(pyval \<Rightarrow> reason + 'a) \<Rightarrow> string \<Rightarrow> pydict \<Rightarrow> field_error list + 'a" where
  "required ty k d =
     (case get d k of
        None \<Rightarrow> Inl [(k, Missing)]
      | Some v \<Rightarrow> (case ty v of Inl e \<Rightarrow> Inl [(k, e)] | Inr x \<Rightarrow> Inr x))"

definition with_default ::
  "(pyval \<Rightarrow> reason + 'a) \<Rightarrow> 'a \<Rightarrow> string \<Rightarrow> pydict \<Rightarrow> field_error list + 'a" where
  "with_default ty dflt k d =
     (case get d k of
        None \<Rightarrow> Inr dflt
      | Some v \<Rightarrow> (case ty v of Inl e \<Rightarrow> Inl [(k, e)] | Inr x \<Rightarrow> Inr x))"

text \<open>Validation visits every field and reports all the errors together: \<open>ap\<close> applies a
  constructor under construction to the next field and appends the errors of both sides.\<close>

fun ap :: "'e list + ('a \<Rightarrow> 'b) \<Rightarrow> 'e list + 'a \<Rightarrow> 'e list + 'b" where
  "ap (Inr f) (Inr x) = Inr (f x)"
| "ap (Inl es) (Inr x) = Inl es"
| "ap (Inr f) (Inl es) = Inl es"
| "ap (Inl es) (Inl es') = Inl (es @ es')"

section \<open>schemas.py\<close>

record kitten =
  name :: ustr
  color :: ustr
  sex :: ustr
  age_weeks :: "int option"
  location :: ustr
  giant :: bool
  price_usd :: "int option"
  status :: ustr
  images :: "ustr list"
  description :: "ustr option"

record inquiry =
  name :: ustr
  email :: ustr
  phone :: "ustr option"
  preferred_color :: "ustr option"
  location :: "ustr option"
  contact_method :: "ustr option"
  message :: "ustr option"

record testimonial =
  author :: ustr
  handle :: "ustr option"
  content :: ustr
  rating :: int
  avatar_url :: "ustr option"
  image_url :: "ustr option"

definition Kitten :: "libs \<Rightarrow> pydict \<Rightarrow> field_error list + kitten" where
  "Kitten L d =
     ap (ap (ap (ap (ap (ap (ap (ap (ap (ap
       (Inr (\<lambda>n c s a l g p st im de.
          \<lparr>kitten.name = n, color = c, sex = s, age_weeks = a, location = l, giant = g,
           price_usd = p, status = st, images = im, description = de\<rparr>))
       (required (str_type L) ''name'' d))
       (required (str_type L) ''color'' d))
       (required (str_type L) ''sex'' d))
       (with_default (optional (int_ge L 0)) None ''age_weeks'' d))
       (required (str_type L) ''location'' d))
       (with_default (bool_type L) True ''giant'' d))
       (with_default (optional (int_ge L 0)) None ''price_usd'' d))
       (with_default (str_type L) (ascii ''available'') ''status'' d))
       (with_default (list_type (url_type L)) [] ''images'' d))
       (with_default (optional (str_type L)) None ''description'' d)"

definition Inquiry :: "libs \<Rightarrow> pydict \<Rightarrow> field_error list + inquiry" where
  "Inquiry L d =
     ap (ap (ap (ap (ap (ap (ap
       (Inr (\<lambda>n e p c l m t.
          \<lparr>inquiry.name = n, email = e, phone = p, preferred_color = c, location = l,
           contact_method = m, message = t\<rparr>))
       (required (str_type L) ''name'' d))
       (required (email_type L) ''email'' d))
       (with_default (optional (str_type L)) None ''phone'' d))
       (with_default (optional (str_type L)) None ''preferred_color'' d))
       (with_default (optional (str_type L)) None ''location'' d))
       (with_default (optional (str_type L)) None ''contact_method'' d))
       (with_default (optional (str_type L)) None ''message'' d)"

definition Testimonial :: "libs \<Rightarrow> pydict \<Rightarrow> field_error list + testimonial" where
  "Testimonial L d =
     ap (ap (ap (ap (ap (ap
       (Inr (\<lambda>a h c r av im.
          \<lparr>author = a, handle = h, content = c, rating = r, avatar_url = av, image_url = im\<rparr>))
       (required (str_type L) ''author'' d))
       (with_default (optional (str_type L)) None ''handle'' d))
       (required (str_type L) ''content'' d))
       (with_default (int_range L 1 5) 5 ''rating'' d))
       (with_default (optional (url_type L)) None ''avatar_url'' d))
       (with_default (optional (url_type L)) None ''image_url'' d)"

section \<open>Matching text\<close>

text \<open>Case folding of the ASCII letters, and the plain substring test (Python's \<open>in\<close>).\<close>

definition lower :: "nat \<Rightarrow> nat" where
  "lower c = (if 65 \<le> c \<and> c \<le> 90 then c + 32 else c)"

fun is_prefix :: "ustr \<Rightarrow> ustr \<Rightarrow> bool" where
  "is_prefix [] s = True"
| "is_prefix (c # p) [] = False"
| "is_prefix (c # p) (x # s) = (c = x \<and> is_prefix p s)"

fun contains :: "ustr \<Rightarrow> ustr \<Rightarrow> bool" where
  "contains p [] = (p = [])"
| "contains p (x # s) = (is_prefix p (x # s) \<or> contains p s)"

text \<open>What the specification calls a case-insensitive "contains".\<close>

definition contains_ci :: "ustr \<Rightarrow> ustr \<Rightarrow> bool" where
  "contains_ci p s = contains (map lower p) (map lower s)"

subsection \<open>The store's \<open>$regex\<close> operator\<close>

text \<open>
  \<open>list_kittens\<close> hands the parameter value to the store as a regular expression. The
  fragment interpreted here is a pattern made of ordinary characters and the wildcard \<open>.\<close>
  (any character but a line feed), over ASCII text, with no option or the option \<open>i\<close>; the
  search is unanchored. The characters \<open>\ ^ $ . | ? * + ( ) [ ] { }\<close> are not ordinary,
  and neither is the code point 0, which a pattern cannot hold. Every other pattern, option
  or text goes to the engine of \<^typ>\<open>libs\<close>.
\<close>

definition metachars :: "nat list" where
  "metachars = [0, 92, 94, 36, 46, 124, 63, 42, 43, 40, 41, 91, 93, 123, 125]"

definition ascii_text :: "ustr \<Rightarrow> bool" where
  "ascii_text s = list_all (\<lambda>c. c < 128) s"

definition literal :: "ustr \<Rightarrow> bool" where
  "literal p = list_all (\<lambda>c. c \<notin> set metachars) p"

definition simple_pattern :: "ustr \<Rightarrow> bool" where
  "simple_pattern p = list_all (\<lambda>c. c = 46 \<or> c \<notin> set metachars) p"

definition rx_char :: "bool \<Rightarrow> nat \<Rightarrow> nat \<Rightarrow> bool" where
  "rx_char caseless c x =
     (if c = 46 then x \<noteq> 10
      else if caseless then lower c = lower x
      else c = x)"

fun rx_prefix :: "bool \<Rightarrow> ustr \<Rightarrow> ustr \<Rightarrow> bool" where
  "rx_prefix caseless [] s = True"
| "rx_prefix caseless (c # p) [] = False"
| "rx_prefix caseless (c # p) (x # s) = (rx_char caseless c x \<and> rx_prefix caseless p s)"

fun rx_search :: "bool \<Rightarrow> ustr \<Rightarrow> ustr \<Rightarrow> bool" where
  "rx_search caseless p [] = (p = [])"
| "rx_search caseless p (x # s) = (rx_prefix caseless p (x # s) \<or> rx_search caseless p s)"

definition regex_search :: "libs \<Rightarrow> ustr \<Rightarrow> ustr \<Rightarrow> ustr \<Rightarrow> bool" where
  "regex_search L p opts s =
     (if simple_pattern p \<and> ascii_text p \<and> ascii_text s \<and> (opts = [] \<or> opts = ascii ''i'')
      then rx_search (opts = ascii ''i'') p s
      else regex_engine L p opts s)"

section \<open>The document store\<close>

text \<open>
  A stored document: the store-generated identifier under \<open>_id\<close>, held apart from the
  other keys, and the fields. \<open>str\<close> of an identifier is its hexadecimal text.
\<close>

datatype object_id = ObjectId ustr

record raw_doc =
  oid :: "object_id option"
  data :: pydict

text \<open>A filter maps a field name to a condition: \<open>{"$regex": p, "$options": o}\<close> or a plain
  value to be equal to.\<close>

datatype cond = Regex ustr ustr | Equals ustr

type_synonym query = "(string \<times> cond) list"

record document_store =
  colls :: "(string \<times> raw_doc list) list"
  fault :: "ustr option"
  next_oid :: nat

datatype error =
    HTTPException nat ustr
  | RequestValidationError "field_error list"
  | ValidationError "field_error list"
  | StoreError ustr

text \<open>The status line the framework gives an error: its own 422 for a rejected request, the
  code of an \<open>HTTPException\<close>, 500 for any exception the endpoint lets through.\<close>

fun status_code :: "error \<Rightarrow> nat" where
  "status_code (HTTPException c detail) = c"
| "status_code (RequestValidationError es) = 422"
| "status_code (ValidationError es) = 500"
| "status_code (StoreError e) = 500"

definition collection :: "document_store \<Rightarrow> string \<Rightarrow> raw_doc list" where
  "collection s c = (case map_of (colls s) c of None \<Rightarrow> [] | Some ds \<Rightarrow> ds)"

text \<open>A condition on one value; on an array the store tests the items.\<close>

fun cond_atom :: "libs \<Rightarrow> cond \<Rightarrow> pyval \<Rightarrow> bool" where
  "cond_atom L (Regex p opts) (VStr s) = regex_search L p opts s"
| "cond_atom L (Equals v) (VStr s) = (s = v)"
| "cond_atom L c v = False"

definition cond_holds :: "libs \<Rightarrow> cond \<Rightarrow> pyval \<Rightarrow> bool" where
  "cond_holds L c v =
     (case v of VList vs \<Rightarrow> list_ex (cond_atom L c) vs | _ \<Rightarrow> cond_atom L c v)"

definition field_holds :: "libs \<Rightarrow> raw_doc \<Rightarrow> string \<Rightarrow> cond \<Rightarrow> bool" where
  "field_holds L d k c = (case get (data d) k of None \<Rightarrow> False | Some v \<Rightarrow> cond_holds L c v)"

definition matches :: "libs \<Rightarrow> query \<Rightarrow> raw_doc \<Rightarrow> bool" where
  "matches L q d = list_all (\<lambda>(k, c). field_holds L d k c) q"

text \<open>
  Modelled from the spec: \<open>get_documents\<close> of \<open>database.py\<close>, which is not among the
  sources. "find(collection_name, filter, limit=0): queries using an equality/pattern
  filter and returns up to limit documents (0 meaning unbounded) in the store's natural
  order"; a store-level failure is an error for the caller.
\<close>

definition get_documents ::
  "libs \<Rightarrow> document_store \<Rightarrow> string \<Rightarrow> query \<Rightarrow> int \<Rightarrow> error + raw_doc list" where
  "get_documents L s c q limit =
     (case fault s of
        Some e \<Rightarrow> Inl (StoreError e)
      | None \<Rightarrow>
          (let found = filter (matches L q) (collection s c)
           in Inr (if limit = 0 then found else take (nat limit) found)))"

text \<open>The identifier the store generates: 24 hexadecimal digits of a counter.\<close>

definition hex_digit :: "nat \<Rightarrow> nat" where
  "hex_digit n = (if n < 10 then 48 + n else 87 + n)"

fun hex :: "nat \<Rightarrow> nat \<Rightarrow> ustr" where
  "hex 0 n = []"
| "hex (Suc k) n = hex k (n div 16) @ [hex_digit (n mod 16)]"

fun str_oid :: "object_id \<Rightarrow> ustr" where
  "str_oid (ObjectId h) = h"

text \<open>
  Modelled from the spec: \<open>create_document\<close> of \<open>database.py\<close>, which is not among the
  sources. "insert(collection_name, record): serializes the validated record and inserts
  it; returns the store-generated identifier as a string. Side effect: one new document
  persisted. A store-level failure propagates as an unrecoverable error to the caller."
\<close>

definition create_document ::
  "document_store \<Rightarrow> string \<Rightarrow> pydict \<Rightarrow> (error + ustr) \<times> document_store" where
  "create_document s c record =
     (case fault s of
        Some e \<Rightarrow> (Inl (StoreError e), s)
      | None \<Rightarrow>
          (let i = ObjectId (hex 24 (next_oid s));
               doc = \<lparr>oid = Some i, data = record\<rparr>
           in (Inr (str_oid i),
               s\<lparr>colls := (c, collection s c @ [doc]) # filter (\<lambda>p. fst p \<noteq> c) (colls s),
                  next_oid := Suc (next_oid s)\<rparr>)))"

text \<open>\<open>model_dump\<close> of the three record kinds.\<close>

definition opt :: "('a \<Rightarrow> pyval) \<Rightarrow> 'a option \<Rightarrow> pyval" where
  "opt f x = (case x of None \<Rightarrow> VNone | Some y \<Rightarrow> f y)"

definition kitten_dump :: "'a kitten_scheme \<Rightarrow> pydict" where
  "kitten_dump k =
     [(''name'', VStr (kitten.name k)), (''color'', VStr (color k)), (''sex'', VStr (sex k)),
      (''age_weeks'', opt VInt (age_weeks k)), (''location'', VStr (kitten.location k)),
      (''giant'', VBool (giant k)), (''price_usd'', opt VInt (price_usd k)),
      (''status'', VStr (status k)), (''images'', VList (map VStr (images k))),
      (''description'', opt VStr (description k))]"

definition inquiry_dump :: "inquiry \<Rightarrow> pydict" where
  "inquiry_dump q =
     [(''name'', VStr (inquiry.name q)), (''email'', VStr (email q)),
      (''phone'', opt VStr (phone q)), (''preferred_color'', opt VStr (preferred_color q)),
      (''location'', opt VStr (inquiry.location q)),
      (''contact_method'', opt VStr (contact_method q)), (''message'', opt VStr (message q))]"

definition testimonial_dump :: "'a testimonial_scheme \<Rightarrow> pydict" where
  "testimonial_dump t =
     [(''author'', VStr (author t)), (''handle'', opt VStr (handle t)),
      (''content'', VStr (content t)), (''rating'', VInt (rating t)),
      (''avatar_url'', opt VStr (avatar_url t)), (''image_url'', opt VStr (image_url t))]"

section \<open>main.py\<close>

text \<open>
  The process-wide state: the handle \<open>db\<close> imported from \<open>database\<close> (\<open>None\<close> when the
  connection was never set up), the store behind it, and the environment variable
  \<open>DATABASE_URL\<close>. Reading the attribute \<open>name\<close> of the handle gives a name, finds no such
  attribute (\<open>Inr None\<close>), or raises (\<open>Inl\<close> the text of the exception).
\<close>

record db_handle =
  name_attr :: "ustr + ustr option"

record world =
  db :: "db_handle option"
  store :: document_store
  DATABASE_URL :: "ustr option"

text \<open>Truth value of an optional text in an \<open>if\<close>: \<open>None\<close> and the empty text are false.\<close>

definition truthy :: "ustr option \<Rightarrow> bool" where
  "truthy x = (case x of None \<Rightarrow> False | Some s \<Rightarrow> s \<noteq> [])"

text \<open>\<open>xs[:n]\<close>: a negative \<open>n\<close> counts from the end.\<close>

definition py_prefix :: "int \<Rightarrow> 'a list \<Rightarrow> 'a list" where
  "py_prefix n xs = (if 0 \<le> n then take (nat n) xs else take (nat (int (length xs) + n)) xs)"

subsection \<open>GET /test\<close>

record diagnostic =
  backend :: ustr
  database :: ustr
  database_url :: "ustr option"
  database_name :: "ustr option"
  connection_status :: ustr
  collections :: "ustr list"

definition check_mark :: ustr where
  "check_mark = [9989]"

definition cross_mark :: ustr where
  "cross_mark = [10060]"

definition warning_sign :: ustr where
  "warning_sign = [9888, 65039]"

text \<open>\<open>db.list_collection_names()\<close>: the names, or the store's failure.\<close>

definition list_collection_names :: "document_store \<Rightarrow> ustr + ustr list" where
  "list_collection_names s =
     (case fault s of Some e \<Rightarrow> Inl e | None \<Rightarrow> Inr (map (\<lambda>p. ascii (fst p)) (colls s)))"

definition test_database :: "world \<Rightarrow> diagnostic" where
  "test_database w =
     (let response =
            \<lparr>backend = check_mark @ ascii '' Running'',
             database = cross_mark @ ascii '' Not Available'',
             database_url = None,
             database_name = None,
             connection_status = ascii ''Not Connected'',
             collections = []\<rparr>
      in case db w of
           None \<Rightarrow> response\<lparr>database := warning_sign @ ascii '' Available but not initialized''\<rparr>
         | Some h \<Rightarrow>
             (let r1 = response\<lparr>database := check_mark @ ascii '' Available'',
                                database_url :=
                                  Some (if truthy (DATABASE_URL w) then check_mark @ ascii '' Set''
                                        else cross_mark @ ascii '' Not Set'')\<rparr>
              in case name_attr h of
                   Inl e \<Rightarrow> r1\<lparr>database := cross_mark @ ascii '' Error: '' @ take 120 e\<rparr>
                 | Inr n \<Rightarrow>
                     (let r2 = r1\<lparr>database_name :=
                                      Some (case n of Some x \<Rightarrow> x
                                            | None \<Rightarrow> check_mark @ ascii '' Connected''),
                                    connection_status := ascii ''Connected''\<rparr>
                      in case list_collection_names (store w) of
                           Inl e \<Rightarrow>
                             r2\<lparr>database :=
                                  warning_sign @ ascii '' Connected but Error: '' @ take 80 e\<rparr>
                         | Inr names \<Rightarrow>
                             r2\<lparr>collections := take 10 names,
                                database := check_mark @ ascii '' Connected & Working''\<rparr>)))"

subsection \<open>Kittens\<close>

record kitten_out = kitten +
  id_field :: "ustr option"

definition KittenOut :: "libs \<Rightarrow> pydict \<Rightarrow> field_error list + kitten_out" where
  "KittenOut L d =
     ap (case Kitten L d of
           Inl es \<Rightarrow> Inl es
         | Inr k \<Rightarrow> Inr (\<lambda>i. kitten.extend k (kitten_out.fields i)))
        (with_default (optional (str_type L)) None ''id'' d)"

text \<open>The response model writes the declared fields of a record, and nothing else.\<close>

definition kitten_out_json :: "kitten_out \<Rightarrow> pydict" where
  "kitten_out_json k = kitten_dump k @ [(''id'', opt VStr (id_field k))]"

text \<open>\<open>d["id"] = str(d.get("_id")); d.pop("_id", None)\<close>: the keyword dictionary that is
  left carries the stringified identifier under \<open>id\<close> and no \<open>_id\<close>.\<close>

definition str_id :: "object_id option \<Rightarrow> ustr" where
  "str_id x = (case x of None \<Rightarrow> ascii ''None'' | Some i \<Rightarrow> str_oid i)"

definition put :: "string \<Rightarrow> pyval \<Rightarrow> pydict \<Rightarrow> pydict" where
  "put k v d = (k, v) # filter (\<lambda>p. fst p \<noteq> k) d"

definition with_id :: "raw_doc \<Rightarrow> pydict" where
  "with_id d = put ''id'' (VStr (str_id (oid d))) (data d)"

fun kitten_rows :: "libs \<Rightarrow> raw_doc list \<Rightarrow> error + kitten_out list" where
  "kitten_rows L [] = Inr []"
| "kitten_rows L (d # ds) =
     (case KittenOut L (with_id d) of
        Inl es \<Rightarrow> Inl (ValidationError es)
      | Inr k \<Rightarrow> (case kitten_rows L ds of Inl e \<Rightarrow> Inl e | Inr out \<Rightarrow> Inr (k # out)))"

definition kitten_query ::
  "ustr option \<Rightarrow> ustr option \<Rightarrow> ustr option \<Rightarrow> ustr option \<Rightarrow> query" where
  "kitten_query color' location' sex' status' =
     (if truthy color' then [(''color'', Regex (the color') (ascii ''i''))] else []) @
     (if truthy location' then [(''location'', Regex (the location') (ascii ''i''))] else []) @
     (if truthy sex' then [(''sex'', Regex (the sex') (ascii ''i''))] else []) @
     (if truthy status' then [(''status'', Equals (the status'))] else [])"

definition list_kittens ::
  "libs \<Rightarrow> world \<Rightarrow> ustr option \<Rightarrow> ustr option \<Rightarrow> ustr option \<Rightarrow> ustr option
     \<Rightarrow> error + kitten_out list" where
  "list_kittens L w color' location' sex' status' =
     (if db w = None then Inr []
      else case get_documents L (store w) ''kitten''
                  (kitten_query color' location' sex' status') 0 of
             Inl e \<Rightarrow> Inl e
           | Inr docs \<Rightarrow> kitten_rows L docs)"

definition create_kitten :: "world \<Rightarrow> kitten \<Rightarrow> (error + ustr) \<times> world" where
  "create_kitten w k =
     (if db w = None then (Inl (HTTPException 500 (ascii ''Database not available'')), w)
      else case create_document (store w) ''kitten'' (kitten_dump k) of
             (r, s) \<Rightarrow> (r, w\<lparr>store := s\<rparr>))"

text \<open>The framework validates the body against the parameter's type before it calls the
  endpoint function, and answers 422 by itself when the body is rejected.\<close>

definition post_kittens :: "libs \<Rightarrow> world \<Rightarrow> pydict \<Rightarrow> (error + ustr) \<times> world" where
  "post_kittens L w body =
     (case Kitten L body of
        Inl es \<Rightarrow> (Inl (RequestValidationError es), w)
      | Inr k \<Rightarrow> create_kitten w k)"

subsection \<open>Inquiries\<close>

record inquiry_response =
  id_field :: ustr
  success :: bool

definition submit_inquiry :: "world \<Rightarrow> inquiry \<Rightarrow> (error + inquiry_response) \<times> world" where
  "submit_inquiry w q =
     (if db w = None then (Inl (HTTPException 500 (ascii ''Database not available'')), w)
      else case create_document (store w) ''inquiry'' (inquiry_dump q) of
             (Inl e, s) \<Rightarrow> (Inl e, w\<lparr>store := s\<rparr>)
           | (Inr i, s) \<Rightarrow> (Inr \<lparr>inquiry_response.id_field = i, success = True\<rparr>, w\<lparr>store := s\<rparr>))"

definition post_inquiries ::
  "libs \<Rightarrow> world \<Rightarrow> pydict \<Rightarrow> (error + inquiry_response) \<times> world" where
  "post_inquiries L w body =
     (case Inquiry L body of
        Inl es \<Rightarrow> (Inl (RequestValidationError es), w)
      | Inr q \<Rightarrow> submit_inquiry w q)"

subsection \<open>Testimonials\<close>

record testimonial_out = testimonial +
  id_field :: "ustr option"

definition TestimonialOut :: "libs \<Rightarrow> pydict \<Rightarrow> field_error list + testimonial_out" where
  "TestimonialOut L d =
     ap (case Testimonial L d of
           Inl es \<Rightarrow> Inl es
         | Inr t \<Rightarrow> Inr (\<lambda>i. testimonial.extend t (testimonial_out.fields i)))
        (with_default (optional (str_type L)) None ''id'' d)"

definition testimonial_out_json :: "testimonial_out \<Rightarrow> pydict" where
  "testimonial_out_json t = testimonial_dump t @ [(''id'', opt VStr (testimonial_out.id_field t))]"

definition avatar_1 :: ustr where
  "avatar_1 =
     ascii ''https://images.unsplash.com/photo-1607746882042-944635dfe10e?w=200&h=200&fit=crop''"

definition avatar_2 :: ustr where
  "avatar_2 =
     ascii ''https://images.unsplash.com/photo-1544723795-3fb6469f5b39?w=200&h=200&fit=crop''"

definition examples :: "pydict list" where
  "examples =
     [[(''author'', VStr (ascii ''Sofia R.'')),
       (''handle'', VStr (ascii ''@sof_and_max'')),
       (''content'', VStr (ascii ''Our shaded silver boy is massive and so gentle. The FaceTime call sealed our trust'' @ [8212] @ ascii ''everything was exactly as promised.'')),
       (''rating'', VInt 5),
       (''avatar_url'', VStr avatar_1)],
      [(''author'', VStr (ascii ''Michael T.'')),
       (''handle'', VStr (ascii ''@mt_angeleno'')),
       (''content'', VStr (ascii ''Hand delivery to LA was seamless. Genetics and health transparency are top-tier. Couldn'' @ [8217] @ ascii ''t be happier!'')),
       (''rating'', VInt 5),
       (''avatar_url'', VStr avatar_2)]]"

text \<open>\<open>[TestimonialOut(**e) for e in ...]\<close>: every item is validated, in order; the first
  failure is the exception of the whole comprehension.\<close>

fun testimonial_rows :: "libs \<Rightarrow> pydict list \<Rightarrow> error + testimonial_out list" where
  "testimonial_rows L [] = Inr []"
| "testimonial_rows L (d # ds) =
     (case TestimonialOut L d of
        Inl es \<Rightarrow> Inl (ValidationError es)
      | Inr t \<Rightarrow> (case testimonial_rows L ds of Inl e \<Rightarrow> Inl e | Inr out \<Rightarrow> Inr (t # out)))"

definition list_testimonials :: "libs \<Rightarrow> world \<Rightarrow> int \<Rightarrow> error + testimonial_out list" where
  "list_testimonials L w limit =
     (if db w = None then
        (case testimonial_rows L examples of
           Inl e \<Rightarrow> Inl e
         | Inr out \<Rightarrow> Inr (py_prefix limit out))
      else case get_documents L (store w) ''testimonial'' [] limit of
             Inl e \<Rightarrow> Inl e
           | Inr docs \<Rightarrow> testimonial_rows L (map with_id docs))"

section \<open>Vocabulary of the properties\<close>

text \<open>The built-in examples pass validation when the URL grammar accepts their two avatar
  addresses.\<close>

definition accepts_examples :: "libs \<Rightarrow> bool" where
  "accepts_examples L = (parse_url L avatar_1 \<noteq> None \<and> parse_url L avatar_2 \<noteq> None)"

text \<open>The schema violations of a request body: a required key that is absent, an integer
  below zero under \<open>age_weeks\<close> or \<open>price_usd\<close>, a text under \<open>email\<close> that the e-mail
  grammar refuses, an integer outside 1..5 under \<open>rating\<close>.\<close>

definition negative :: "libs \<Rightarrow> pyval option \<Rightarrow> bool" where
  "negative L x =
     (case x of
        None \<Rightarrow> False
      | Some v \<Rightarrow> v \<noteq> VNone \<and> (case int_type L v of Inl e \<Rightarrow> False | Inr n \<Rightarrow> n < 0))"

definition bad_email :: "libs \<Rightarrow> pyval option \<Rightarrow> bool" where
  "bad_email L x = (case x of Some (VStr s) \<Rightarrow> parse_email L s = None | _ \<Rightarrow> False)"

definition out_of_range :: "libs \<Rightarrow> pyval option \<Rightarrow> bool" where
  "out_of_range L x =
     (case x of
        None \<Rightarrow> False
      | Some v \<Rightarrow> (case int_type L v of Inl e \<Rightarrow> False | Inr n \<Rightarrow> n < 1 \<or> 5 < n))"

definition kitten_violation :: "libs \<Rightarrow> pydict \<Rightarrow> bool" where
  "kitten_violation L body =
     (get body ''name'' = None \<or> get body ''color'' = None \<or> get body ''sex'' = None \<or>
      get body ''location'' = None \<or> negative L (get body ''age_weeks'') \<or>
      negative L (get body ''price_usd''))"

definition inquiry_violation :: "libs \<Rightarrow> pydict \<Rightarrow> bool" where
  "inquiry_violation L body =
     (get body ''name'' = None \<or> get body ''email'' = None \<or> bad_email L (get body ''email''))"

text \<open>
  The selection of \<open>GET /api/kittens\<close> in the words of the specification: the text a
  document holds under a key, a parameter that counts (provided and not empty) asking for
  case-insensitive containment or for equality, and the four conditions together.
\<close>

definition text_at :: "raw_doc \<Rightarrow> string \<Rightarrow> ustr option" where
  "text_at d k = (case get (data d) k of Some (VStr s) \<Rightarrow> Some s | _ \<Rightarrow> None)"

definition field_contains :: "ustr option \<Rightarrow> ustr option \<Rightarrow> bool" where
  "field_contains p t =
     (truthy p \<longrightarrow> (case t of Some s \<Rightarrow> contains_ci (the p) s | None \<Rightarrow> False))"

definition field_equals :: "ustr option \<Rightarrow> ustr option \<Rightarrow> bool" where
  "field_equals p t = (truthy p \<longrightarrow> t = p)"

definition selected ::
  "ustr option \<Rightarrow> ustr option \<Rightarrow> ustr option \<Rightarrow> ustr option \<Rightarrow> raw_doc \<Rightarrow> bool" where
  "selected color' location' sex' status' d =
     (field_contains color' (text_at d ''color'')
      \<and> field_contains location' (text_at d ''location'')
      \<and> field_contains sex' (text_at d ''sex'')
      \<and> field_equals status' (text_at d ''status''))"

text \<open>A stored kitten as the Kitten schema writes it: ASCII text under \<open>color\<close>,
  \<open>location\<close> and \<open>sex\<close>, text under \<open>status\<close>. A parameter value that the store reads as
  the text itself: ASCII, with no character that is special in a regular expression.\<close>

definition plain_kitten_doc :: "raw_doc \<Rightarrow> bool" where
  "plain_kitten_doc d =
     (list_all (\<lambda>k. case text_at d k of Some s \<Rightarrow> ascii_text s | None \<Rightarrow> False)
        [''color'', ''location'', ''sex'']
      \<and> text_at d ''status'' \<noteq> None)"

definition plain_param :: "ustr option \<Rightarrow> bool" where
  "plain_param p = (case p of None \<Rightarrow> True | Some s \<Rightarrow> literal s \<and> ascii_text s)"

text \<open>A response object made from a stored document: no key \<open>_id\<close>, and under \<open>id\<close> the
  text of the document's identifier.\<close>

definition projected :: "pydict \<Rightarrow> raw_doc \<Rightarrow> bool" where
  "projected j d =
     (''_id'' \<notin> set (map fst j) \<and> get j ''id'' = Some (VStr (str_id (oid d))))"

section \<open>Sample data\<close>

text \<open>A library for concrete evaluations: no lax conversion, an e-mail address needs an
  \<open>@\<close>, a URL starts with \<open>http\<close>, and the engine matches nothing beyond the fragment.\<close>

definition sample_libs :: libs where
  "sample_libs =
     \<lparr>coerce_str = (\<lambda>v. None), coerce_int = (\<lambda>v. None), coerce_bool = (\<lambda>v. None),
      parse_email = (\<lambda>s. if 64 \<in> set s then Some s else None),
      parse_url = (\<lambda>s. if is_prefix (ascii ''http'') s then Some s else None),
      regex_engine = (\<lambda>p opts s. False)\<rparr>"

definition leo_body :: pydict where
  "leo_body =
     [(''name'', VStr (ascii ''Leo'')), (''color'', VStr (ascii ''Smoke Black'')),
      (''sex'', VStr (ascii ''Male'')), (''location'', VStr (ascii ''Miami, FL''))]"

definition leo :: kitten where
  "leo =
     \<lparr>kitten.name = ascii ''Leo'', color = ascii ''Smoke Black'', sex = ascii ''Male'',
      age_weeks = None, location = ascii ''Miami, FL'', giant = True, price_usd = None,
      status = ascii ''available'', images = [], description = None\<rparr>"

definition leo_doc :: raw_doc where
  "leo_doc = \<lparr>oid = Some (ObjectId (hex 24 0)), data = kitten_dump leo\<rparr>"

definition leo_out :: kitten_out where
  "leo_out = kitten.extend leo (kitten_out.fields (Some (hex 24 0)))"

definition ann :: testimonial where
  "ann =
     \<lparr>author = ascii ''Ann'', handle = None, content = ascii ''Lovely'', rating = 4,
      avatar_url = None, image_url = None\<rparr>"

definition ann_doc :: raw_doc where
  "ann_doc = \<lparr>oid = Some (ObjectId (hex 24 1)), data = testimonial_dump ann\<rparr>"

definition ann_out :: testimonial_out where
  "ann_out = testimonial.extend ann (testimonial_out.fields (Some (hex 24 1)))"

definition sample_store :: document_store where
  "sample_store =
     \<lparr>colls = [(''kitten'', [leo_doc]), (''testimonial'', [ann_doc])], fault = None,
      next_oid = 2\<rparr>"

definition sample_world :: world where
  "sample_world =
     \<lparr>db = Some \<lparr>name_attr = Inr (Some (ascii ''cats''))\<rparr>, store = sample_store,
      DATABASE_URL = Some (ascii ''mongodb://localhost'')\<rparr>"

definition offline_world :: world where
  "offline_world = sample_world\<lparr>db := None\<rparr>"

definition failing_world :: world where
  "failing_world = sample_world\<lparr>store := sample_store\<lparr>fault := Some (ascii ''timed out'')\<rparr>\<rparr>"

definition broken_handle_world :: world where
  "broken_handle_world = sample_world\<lparr>db := Some \<lparr>name_attr = Inl (ascii ''closed'')\<rparr>\<rparr>"

definition negative_age_body :: pydict where
  "negative_age_body = leo_body @ [(''age_weeks'', VInt (- 3))]"

definition bad_inquiry_body :: pydict where
  "bad_inquiry_body =
     [(''name'', VStr (ascii ''Ann'')), (''email'', VStr (ascii ''not-an-email''))]"

definition bad_rating_body :: pydict where
  "bad_rating_body =
     [(''author'', VStr (ascii ''Ann'')), (''content'', VStr (ascii ''Lovely'')),
      (''rating'', VInt 6)]"

section \<open>Properties\<close>

subsection \<open>Validation\<close>

lemma ap_Inr_iff: "ap f x = Inr y \<longleftrightarrow> (\<exists>g a. f = Inr g \<and> x = Inr a \<and> y = g a)"
  by (cases f; cases x) auto

lemma isl_ap: "isl (ap f x) = (isl f \<or> isl x)"
  by (cases f; cases x) auto

lemma ap_sound:
  "(\<forall>es. f = Inl es \<longrightarrow> es \<noteq> []) \<Longrightarrow> (\<forall>es. x = Inl es \<longrightarrow> es \<noteq> [])
     \<Longrightarrow> (\<forall>es. ap f x = Inl es \<longrightarrow> es \<noteq> [])"
  by (cases f; cases x) auto

lemma required_sound: "\<forall>es. required ty k d = Inl es \<longrightarrow> es \<noteq> []"
  by (auto simp: required_def split: option.splits sum.splits)

lemma with_default_sound: "\<forall>es. with_default ty dflt k d = Inl es \<longrightarrow> es \<noteq> []"
  by (auto simp: with_default_def split: option.splits sum.splits)

lemma Kitten_sound: "\<forall>es. Kitten L d = Inl es \<longrightarrow> es \<noteq> []"
  unfolding Kitten_def
  by (intro ap_sound required_sound with_default_sound) simp

lemma Inquiry_sound: "\<forall>es. Inquiry L d = Inl es \<longrightarrow> es \<noteq> []"
  unfolding Inquiry_def
  by (intro ap_sound required_sound with_default_sound) simp

lemma with_default_absent: "get d k = None \<Longrightarrow> with_default ty dflt k d = Inr dflt"
  by (simp add: with_default_def)

lemma required_absent: "get d k = None \<Longrightarrow> isl (required ty k d)"
  by (simp add: required_def)

lemma negative_rejected:
  "negative L (get d k) \<Longrightarrow> isl (with_default (optional (int_ge L 0)) None k d)"
  by (auto simp: negative_def with_default_def optional_def int_ge_def
      split: option.splits sum.splits pyval.splits)

lemma bad_email_rejected: "bad_email L (get d k) \<Longrightarrow> isl (required (email_type L) k d)"
  by (auto simp: bad_email_def required_def email_type_def split: option.splits pyval.splits)

lemma out_of_range_rejected:
  "out_of_range L (get d k) \<Longrightarrow> isl (with_default (int_range L 1 5) 5 k d)"
  by (auto simp: out_of_range_def with_default_def int_range_def
      split: option.splits sum.splits)

lemma kitten_violation_rejected: "kitten_violation L d \<Longrightarrow> isl (Kitten L d)"
  by (auto simp: kitten_violation_def Kitten_def isl_ap required_absent negative_rejected)

lemma inquiry_violation_rejected: "inquiry_violation L d \<Longrightarrow> isl (Inquiry L d)"
  by (auto simp: inquiry_violation_def Inquiry_def isl_ap required_absent bad_email_rejected)

lemma Kitten_leo: "Kitten sample_libs leo_body = Inr leo"
  by (simp add: Kitten_def leo_body_def leo_def sample_libs_def required_def with_default_def
      get_def str_type_def)

lemma sample_accepts_examples: "accepts_examples sample_libs"
  by (simp add: accepts_examples_def sample_libs_def avatar_1_def avatar_2_def ascii_def)

lemma offline_db: "db offline_world = None"
  by (simp add: offline_world_def)

text \<open>
  C4. A request body that violates a constraint of its endpoint's schema (a required field
  missing, an e-mail address the grammar refuses, \<open>age_weeks\<close> or \<open>price_usd\<close> below zero)
  is answered by \<open>POST /api/kittens\<close> and \<open>POST /api/inquiries\<close> with the framework's 422
  and a non-empty list of field errors, and the world, the store included, is as before.
  A rating outside 1..5 is refused by the Testimonial schema, the only one with that field.
\<close>

theorem invalid_body_rejected:
  "(kitten_violation L body \<longrightarrow>
      (\<exists>es. es \<noteq> [] \<and> post_kittens L w body = (Inl (RequestValidationError es), w)
         \<and> status_code (RequestValidationError es) = 422))
   \<and> (inquiry_violation L body \<longrightarrow>
      (\<exists>es. es \<noteq> [] \<and> post_inquiries L w body = (Inl (RequestValidationError es), w)
         \<and> status_code (RequestValidationError es) = 422))
   \<and> (out_of_range L (get body ''rating'') \<longrightarrow>
        isl (Testimonial L body) \<and> isl (TestimonialOut L body))"
proof (intro conjI impI)
  assume "kitten_violation L body"
  then obtain es where "Kitten L body = Inl es"
    using kitten_violation_rejected[of L body] by (cases "Kitten L body") auto
  then show "\<exists>es. es \<noteq> [] \<and> post_kittens L w body = (Inl (RequestValidationError es), w)
         \<and> status_code (RequestValidationError es) = 422"
    using Kitten_sound by (auto simp: post_kittens_def)
next
  assume "inquiry_violation L body"
  then obtain es where "Inquiry L body = Inl es"
    using inquiry_violation_rejected[of L body] by (cases "Inquiry L body") auto
  then show "\<exists>es. es \<noteq> [] \<and> post_inquiries L w body = (Inl (RequestValidationError es), w)
         \<and> status_code (RequestValidationError es) = 422"
    using Inquiry_sound by (auto simp: post_inquiries_def)
next
  assume r: "out_of_range L (get body ''rating'')"
  show t: "isl (Testimonial L body)"
    using r by (simp add: Testimonial_def isl_ap out_of_range_rejected)
  then show "isl (TestimonialOut L body)"
    by (cases "Testimonial L body") (simp_all add: TestimonialOut_def isl_ap)
qed

theorem invalid_body_rejected_witness:
  "kitten_violation sample_libs negative_age_body
   \<and> inquiry_violation sample_libs bad_inquiry_body
   \<and> out_of_range sample_libs (get bad_rating_body ''rating'')
   \<and> (\<exists>es. post_kittens sample_libs sample_world negative_age_body =
         (Inl (RequestValidationError es), sample_world))
   \<and> (\<exists>es. post_inquiries sample_libs sample_world bad_inquiry_body =
         (Inl (RequestValidationError es), sample_world))
   \<and> isl (Testimonial sample_libs bad_rating_body)"
proof -
  have k: "kitten_violation sample_libs negative_age_body"
    by (simp add: kitten_violation_def negative_def negative_age_body_def leo_body_def get_def
        int_type_def)
  have i: "inquiry_violation sample_libs bad_inquiry_body"
    by (simp add: inquiry_violation_def bad_email_def bad_inquiry_body_def get_def
        sample_libs_def ascii_def)
  have r: "out_of_range sample_libs (get bad_rating_body ''rating'')"
    by (simp add: out_of_range_def bad_rating_body_def get_def int_type_def)
  show ?thesis
    using invalid_body_rejected[of sample_libs negative_age_body sample_world]
      invalid_body_rejected[of sample_libs bad_inquiry_body sample_world]
      invalid_body_rejected[of sample_libs bad_rating_body sample_world] k i r
    by blast
qed

text \<open>
  C5. When a payload is valid and the key is absent, the validated Kitten carries
  \<open>giant = True\<close>, \<open>status = "available"\<close> and \<open>images = []\<close>, and the validated Testimonial
  carries \<open>rating = 5\<close>.
\<close>

theorem defaults_applied:
  "(Kitten L d = Inr k \<and> get d ''giant'' = None \<longrightarrow> giant k = True)
   \<and> (Kitten L d = Inr k \<and> get d ''status'' = None \<longrightarrow> status k = ascii ''available'')
   \<and> (Kitten L d = Inr k \<and> get d ''images'' = None \<longrightarrow> images k = [])
   \<and> (Testimonial L d = Inr t \<and> get d ''rating'' = None \<longrightarrow> rating t = 5)"
  by (auto simp: Kitten_def Testimonial_def ap_Inr_iff with_default_absent)

theorem defaults_applied_witness:
  "Kitten sample_libs leo_body = Inr leo \<and> get leo_body ''giant'' = None
   \<and> get leo_body ''status'' = None \<and> get leo_body ''images'' = None
   \<and> giant leo = True \<and> status leo = ascii ''available'' \<and> images leo = []"
proof -
  have g: "get leo_body ''giant'' = None" "get leo_body ''status'' = None"
    "get leo_body ''images'' = None"
    by (simp_all add: leo_body_def get_def)
  show ?thesis
    using defaults_applied[of sample_libs leo_body leo] Kitten_leo g by simp
qed

subsection \<open>The store handle is absent\<close>

lemma examples_rows:
  assumes "accepts_examples L"
  shows "\<exists>a b. testimonial_rows L examples = Inr [a, b]
     \<and> author a = ascii ''Sofia R.'' \<and> author b = ascii ''Michael T.''"
  using assms
  by (auto simp: accepts_examples_def examples_def TestimonialOut_def Testimonial_def
      required_def with_default_def get_def str_type_def int_range_def int_type_def
      optional_def url_type_def testimonial.defs testimonial_out.defs)

text \<open>
  C2. With no store handle, \<open>GET /api/testimonials\<close> answers with the two built-in examples,
  Sofia R. then Michael T., cut by \<open>[:limit]\<close>: both for the default limit 10 and for every
  limit of at least 2, the first alone for limit 1; for no limit is the answer an error. The
  examples go through \<open>TestimonialOut\<close>, so the URL grammar has to accept their avatar
  addresses.
\<close>

theorem testimonials_fallback:
  assumes "db w = None" and "accepts_examples L"
  shows "\<exists>a b. author a = ascii ''Sofia R.'' \<and> author b = ascii ''Michael T.''
     \<and> (\<forall>limit. list_testimonials L w limit = Inr (py_prefix limit [a, b]))
     \<and> (\<forall>limit\<ge>2. list_testimonials L w limit = Inr [a, b])
     \<and> list_testimonials L w 10 = Inr [a, b]
     \<and> list_testimonials L w 1 = Inr [a]"
proof -
  obtain a b where r: "testimonial_rows L examples = Inr [a, b]"
    and n: "author a = ascii ''Sofia R.''" "author b = ascii ''Michael T.''"
    using examples_rows[OF assms(2)] by blast
  have all: "list_testimonials L w limit = Inr (py_prefix limit [a, b])" for limit
    using r assms(1) by (simp add: list_testimonials_def)
  have two: "py_prefix limit [a, b] = [a, b]" if "2 \<le> limit" for limit
    using that by (simp add: py_prefix_def)
  have one: "py_prefix 1 [a, b] = [a]"
    by (simp add: py_prefix_def)
  show ?thesis
    using n all two one by (intro exI[of _ a] exI[of _ b]) simp
qed

theorem testimonials_fallback_witness:
  "db offline_world = None \<and> accepts_examples sample_libs
   \<and> (\<exists>a b. list_testimonials sample_libs offline_world 10 = Inr [a, b]
        \<and> list_testimonials sample_libs offline_world 1 = Inr [a])"
  using testimonials_fallback[OF offline_db sample_accepts_examples] offline_db
    sample_accepts_examples
  by blast

text \<open>
  C10. With no store handle, \<open>GET /api/testimonials?limit=0\<close> answers with the empty list:
  \<open>[:0]\<close> cuts the validated examples to nothing. For the find helper the limit 0 means
  no bound: a store that answers returns every match.
\<close>

theorem fallback_limit_zero:
  assumes "db w = None" and "accepts_examples L"
  shows "list_testimonials L w 0 = Inr []
    \<and> (fault s = None \<longrightarrow>
         get_documents L s c q 0 = Inr (filter (matches L q) (collection s c)))"
  using examples_rows[OF assms(2)] assms(1)
  by (auto simp: list_testimonials_def py_prefix_def get_documents_def)

theorem fallback_limit_zero_witness:
  "db offline_world = None \<and> accepts_examples sample_libs
   \<and> list_testimonials sample_libs offline_world 0 = Inr []
   \<and> fault sample_store = None
   \<and> get_documents sample_libs sample_store ''testimonial'' [] 0 = Inr [ann_doc]"
proof -
  have f: "fault sample_store = None"
    by (simp add: sample_store_def)
  have c: "filter (matches sample_libs []) (collection sample_store ''testimonial'') = [ann_doc]"
    by (simp add: matches_def collection_def sample_store_def)
  show ?thesis
    using fallback_limit_zero[OF offline_db sample_accepts_examples, of sample_store
        "''testimonial''" "[]"] offline_db sample_accepts_examples f c
    by simp
qed

text \<open>
  C3. With no store handle, \<open>list_kittens\<close> returns the empty list, and \<open>create_kitten\<close> and
  \<open>submit_inquiry\<close> raise \<open>HTTPException(500, "Database not available")\<close> and leave the
  world, the store included, as it was: no document is inserted. A valid body reaches the
  endpoint function, so the two POST routes answer it with that 500.
\<close>

theorem store_absent:
  assumes "db w = None"
  shows "list_kittens L w c l s st = Inr []
    \<and> create_kitten w k = (Inl (HTTPException 500 (ascii ''Database not available'')), w)
    \<and> submit_inquiry w q = (Inl (HTTPException 500 (ascii ''Database not available'')), w)
    \<and> status_code (HTTPException 500 (ascii ''Database not available'')) = 500
    \<and> (Kitten L body = Inr k \<longrightarrow> post_kittens L w body = create_kitten w k)
    \<and> (Inquiry L body = Inr q \<longrightarrow> post_inquiries L w body = submit_inquiry w q)"
  using assms
  by (simp add: list_kittens_def create_kitten_def submit_inquiry_def post_kittens_def
      post_inquiries_def)

theorem store_absent_witness:
  "db offline_world = None \<and> Kitten sample_libs leo_body = Inr leo
   \<and> list_kittens sample_libs offline_world None None None None = Inr []
   \<and> post_kittens sample_libs offline_world leo_body =
       (Inl (HTTPException 500 (ascii ''Database not available'')), offline_world)"
  using store_absent[OF offline_db, of sample_libs None None None None leo _ leo_body]
    offline_db Kitten_leo
  by simp

subsection \<open>GET /api/kittens\<close>

text \<open>
  C9. A query parameter given as the empty text builds the same filter as an omitted one, so
  \<open>list_kittens\<close> returns the same result.
\<close>

theorem empty_parameter_ignored:
  "list_kittens L w (Some []) l s st = list_kittens L w None l s st
   \<and> list_kittens L w c (Some []) s st = list_kittens L w c None s st
   \<and> list_kittens L w c l (Some []) st = list_kittens L w c l None st
   \<and> list_kittens L w c l s (Some []) = list_kittens L w c l s None"
  by (simp add: list_kittens_def kitten_query_def truthy_def)

text \<open>
  C7, as amended. With no store handle \<open>GET /api/kittens\<close> answers with the empty list. With
  a handle, an error of the store in the find helper is not caught by \<open>list_kittens\<close>: it
  leaves the endpoint as an exception, which the framework answers with 500.
\<close>

theorem store_error_not_caught:
  "(db w = None \<longrightarrow> list_kittens L w c l s st = Inr [])
   \<and> (db w \<noteq> None \<and> fault (store w) = Some e \<longrightarrow>
        list_kittens L w c l s st = Inl (StoreError e) \<and> status_code (StoreError e) = 500)"
  by (simp add: list_kittens_def get_documents_def)

theorem store_error_not_caught_witness:
  "db offline_world = None \<and> list_kittens sample_libs offline_world None None None None = Inr []
   \<and> db failing_world \<noteq> None \<and> fault (store failing_world) = Some (ascii ''timed out'')
   \<and> list_kittens sample_libs failing_world None None None None =
       Inl (StoreError (ascii ''timed out''))"
proof -
  have c: "db failing_world \<noteq> None" "fault (store failing_world) = Some (ascii ''timed out'')"
    by (simp_all add: failing_world_def sample_world_def)
  show ?thesis
    using store_error_not_caught[where w = offline_world and L = sample_libs]
      store_error_not_caught[where w = failing_world and e = "ascii ''timed out''"
        and L = sample_libs] offline_db c
    by blast
qed

text \<open>The claim as first stated fails: the store has a handle and fails, and the answer is
  the store's error, not the empty list.\<close>

theorem store_error_counterexample:
  "db failing_world \<noteq> None
   \<and> list_kittens sample_libs failing_world None None None None =
       Inl (StoreError (ascii ''timed out''))
   \<and> list_kittens sample_libs failing_world None None None None \<noteq> Inr []"
  by (simp add: list_kittens_def get_documents_def failing_world_def sample_world_def)

subsection \<open>GET /test\<close>

text \<open>
  C6. \<open>test_database\<close> returns its six-field report in every state. The report lists at most
  10 collection names; \<open>backend\<close> is always the running label; an exception raised on the
  handle becomes the label "Error: " followed by the first 120 characters of its text, an
  exception of the store while listing collections becomes "Connected but Error: " followed
  by the first 80 characters, and no label is longer than 129 characters.
\<close>

theorem test_database_report:
  "length (collections (test_database w)) \<le> 10
   \<and> length (database (test_database w)) \<le> 129
   \<and> backend (test_database w) = check_mark @ ascii '' Running''
   \<and> (db w = None \<longrightarrow>
        database (test_database w) = warning_sign @ ascii '' Available but not initialized'')
   \<and> (\<forall>h e. db w = Some h \<and> name_attr h = Inl e \<longrightarrow>
        database (test_database w) = cross_mark @ ascii '' Error: '' @ take 120 e)
   \<and> (\<forall>h n e. db w = Some h \<and> name_attr h = Inr n \<and> fault (store w) = Some e \<longrightarrow>
        database (test_database w) = warning_sign @ ascii '' Connected but Error: '' @ take 80 e)
   \<and> (\<forall>h n. db w = Some h \<and> name_attr h = Inr n \<and> fault (store w) = None \<longrightarrow>
        database (test_database w) = check_mark @ ascii '' Connected & Working''
        \<and> collections (test_database w) = take 10 (map (\<lambda>p. ascii (fst p)) (colls (store w))))"
  by (auto simp: test_database_def list_collection_names_def Let_def ascii_def check_mark_def
      cross_mark_def warning_sign_def split: option.splits sum.splits)

theorem test_database_report_witness:
  "db offline_world = None
   \<and> database (test_database offline_world) =
       warning_sign @ ascii '' Available but not initialized''
   \<and> db broken_handle_world = Some \<lparr>name_attr = Inl (ascii ''closed'')\<rparr>
   \<and> database (test_database broken_handle_world) =
       cross_mark @ ascii '' Error: '' @ take 120 (ascii ''closed'')
   \<and> db failing_world = Some \<lparr>name_attr = Inr (Some (ascii ''cats''))\<rparr>
   \<and> fault (store failing_world) = Some (ascii ''timed out'')
   \<and> database (test_database failing_world) =
       warning_sign @ ascii '' Connected but Error: '' @ take 80 (ascii ''timed out'')
   \<and> db sample_world = Some \<lparr>name_attr = Inr (Some (ascii ''cats''))\<rparr>
   \<and> fault (store sample_world) = None
   \<and> database (test_database sample_world) = check_mark @ ascii '' Connected & Working''"
proof -
  have b: "db broken_handle_world = Some \<lparr>name_attr = Inl (ascii ''closed'')\<rparr>"
    "name_attr \<lparr>name_attr = Inl (ascii ''closed'')\<rparr> = Inl (ascii ''closed'')"
    by (simp_all add: broken_handle_world_def)
  have c: "db failing_world = Some \<lparr>name_attr = Inr (Some (ascii ''cats''))\<rparr>"
    "name_attr \<lparr>name_attr = Inr (Some (ascii ''cats''))\<rparr> = Inr (Some (ascii ''cats''))"
    "fault (store failing_world) = Some (ascii ''timed out'')"
    by (simp_all add: failing_world_def sample_world_def)
  have d: "db sample_world = Some \<lparr>name_attr = Inr (Some (ascii ''cats''))\<rparr>"
    "fault (store sample_world) = None"
    by (simp_all add: sample_world_def sample_store_def)
  have 1: "database (test_database offline_world) =
       warning_sign @ ascii '' Available but not initialized''"
    using test_database_report[of offline_world] offline_db by blast
  have 2: "database (test_database broken_handle_world) =
       cross_mark @ ascii '' Error: '' @ take 120 (ascii ''closed'')"
    using test_database_report[of broken_handle_world] b by blast
  have 3: "database (test_database failing_world) =
       warning_sign @ ascii '' Connected but Error: '' @ take 80 (ascii ''timed out'')"
    using test_database_report[of failing_world] c by blast
  have 4: "database (test_database sample_world) = check_mark @ ascii '' Connected & Working''"
    using test_database_report[of sample_world] d c(2) by blast
  show ?thesis
    using offline_db b(1) c(1,3) d 1 2 3 4 by simp
qed

subsection \<open>The filter of GET /api/kittens\<close>

lemma is_prefix_iff: "is_prefix p s \<longleftrightarrow> (\<exists>b. s = p @ b)"
  by (induction p s rule: is_prefix.induct) auto

lemma contains_iff: "contains p s \<longleftrightarrow> (\<exists>a b. s = a @ p @ b)"
proof (induction s)
  case Nil
  then show ?case by auto
next
  case (Cons x s)
  show ?case
  proof
    assume "contains p (x # s)"
    then consider "is_prefix p (x # s)" | "contains p s"
      by auto
    then show "\<exists>a b. x # s = a @ p @ b"
    proof cases
      case 1
      then obtain b where "x # s = p @ b"
        using is_prefix_iff by blast
      then have "x # s = [] @ p @ b" by simp
      then show ?thesis by blast
    next
      case 2
      then obtain a b where "s = a @ p @ b"
        using Cons.IH by blast
      then have "x # s = (x # a) @ p @ b" by simp
      then show ?thesis by blast
    qed
  next
    assume "\<exists>a b. x # s = a @ p @ b"
    then obtain a b where e: "x # s = a @ p @ b"
      by blast
    show "contains p (x # s)"
    proof (cases a)
      case Nil
      then have "is_prefix p (x # s)"
        using e is_prefix_iff by auto
      then show ?thesis by simp
    next
      case (Cons y a')
      then have "s = a' @ p @ b"
        using e by simp
      then have "contains p s"
        using Cons.IH by blast
      then show ?thesis by simp
    qed
  qed
qed

lemma rx_prefix_literal:
  "literal p \<Longrightarrow> rx_prefix True p s = is_prefix (map lower p) (map lower s)"
proof (induction p s rule: is_prefix.induct)
  case (3 c p x s)
  then show ?case
    by (auto simp: literal_def rx_char_def metachars_def)
qed simp_all

lemma rx_search_literal:
  "literal p \<Longrightarrow> rx_search True p s = contains_ci p s"
  unfolding contains_ci_def
proof (induction s)
  case Nil
  then show ?case by simp
next
  case (Cons x s)
  then show ?case
    using rx_prefix_literal[of p "x # s"] by simp
qed

lemma literal_simple: "literal p \<Longrightarrow> simple_pattern p"
  by (induction p) (auto simp: literal_def simple_pattern_def)

lemma regex_search_literal:
  "literal p \<Longrightarrow> ascii_text p \<Longrightarrow> ascii_text s
     \<Longrightarrow> regex_search L p (ascii ''i'') s = contains_ci p s"
  by (simp add: regex_search_def literal_simple rx_search_literal)

lemma field_holds_regex:
  assumes "text_at d k = Some s" "ascii_text s" "plain_param p" "truthy p"
  shows "field_holds L d k (Regex (the p) (ascii ''i'')) = field_contains p (text_at d k)"
proof -
  obtain v where p: "p = Some v" "literal v" "ascii_text v"
    using assms(3,4) by (cases p) (auto simp: plain_param_def truthy_def)
  have "get (data d) k = Some (VStr s)"
    using assms(1) by (auto simp: text_at_def split: option.splits pyval.splits)
  then show ?thesis
    using assms p
    by (simp add: field_holds_def cond_holds_def field_contains_def regex_search_literal)
qed

lemma field_holds_equals:
  assumes "text_at d k = Some s" "truthy p"
  shows "field_holds L d k (Equals (the p)) = field_equals p (text_at d k)"
proof -
  obtain v where p: "p = Some v"
    using assms(2) by (cases p) (auto simp: truthy_def)
  have "get (data d) k = Some (VStr s)"
    using assms(1) by (auto simp: text_at_def split: option.splits pyval.splits)
  then show ?thesis
    using assms p
    by (auto simp: field_holds_def cond_holds_def field_equals_def)
qed

lemma not_truthy_contains: "\<not> truthy p \<Longrightarrow> field_contains p t"
  by (simp add: field_contains_def)

lemma not_truthy_equals: "\<not> truthy p \<Longrightarrow> field_equals p t"
  by (simp add: field_equals_def)

lemma matches_selected:
  assumes "plain_kitten_doc d" "plain_param c" "plain_param l" "plain_param s"
  shows "matches L (kitten_query c l s st) d = selected c l s st d"
proof -
  obtain tc tl ts tst where t: "text_at d ''color'' = Some tc" "ascii_text tc"
    "text_at d ''location'' = Some tl" "ascii_text tl"
    "text_at d ''sex'' = Some ts" "ascii_text ts" "text_at d ''status'' = Some tst"
    using assms(1) by (auto simp: plain_kitten_doc_def split: option.splits)
  have 1: "truthy c \<Longrightarrow> field_holds L d ''color'' (Regex (the c) (ascii ''i''))
      = field_contains c (text_at d ''color'')"
    using field_holds_regex[OF t(1,2) assms(2)] .
  have 2: "truthy l \<Longrightarrow> field_holds L d ''location'' (Regex (the l) (ascii ''i''))
      = field_contains l (text_at d ''location'')"
    using field_holds_regex[OF t(3,4) assms(3)] .
  have 3: "truthy s \<Longrightarrow> field_holds L d ''sex'' (Regex (the s) (ascii ''i''))
      = field_contains s (text_at d ''sex'')"
    using field_holds_regex[OF t(5,6) assms(4)] .
  have 4: "truthy st \<Longrightarrow> field_holds L d ''status'' (Equals (the st))
      = field_equals st (text_at d ''status'')"
    using field_holds_equals[OF t(7)] .
  show ?thesis
    unfolding matches_def kitten_query_def selected_def
    using 1 2 3 4
    by (cases "truthy c"; cases "truthy l"; cases "truthy s"; cases "truthy st")
       (simp_all add: not_truthy_contains not_truthy_equals)
qed

lemma sample_handle: "db sample_world \<noteq> None"
  by (simp add: sample_world_def)

lemma sample_healthy: "fault (store sample_world) = None"
  by (simp add: sample_world_def sample_store_def)

lemma sample_kittens: "collection (store sample_world) ''kitten'' = [leo_doc]"
  by (simp add: collection_def sample_world_def sample_store_def)

lemma sample_testimonials: "collection (store sample_world) ''testimonial'' = [ann_doc]"
  by (simp add: collection_def sample_world_def sample_store_def)

lemma leo_doc_texts:
  "text_at leo_doc ''color'' = Some (ascii ''Smoke Black'')"
  "text_at leo_doc ''location'' = Some (ascii ''Miami, FL'')"
  "text_at leo_doc ''sex'' = Some (ascii ''Male'')"
  "text_at leo_doc ''status'' = Some (ascii ''available'')"
  by (simp_all add: text_at_def leo_doc_def leo_def kitten_dump_def get_def)

lemma leo_doc_plain: "plain_kitten_doc leo_doc"
  by (simp add: plain_kitten_doc_def leo_doc_texts) (simp add: ascii_text_def ascii_def)

lemma leo_row: "KittenOut sample_libs (with_id leo_doc) = Inr leo_out"
  by (simp add: leo_out_def KittenOut_def Kitten_def with_id_def put_def leo_doc_def leo_def leo_out_def
      kitten_dump_def opt_def str_id_def sample_libs_def required_def with_default_def
      get_def str_type_def bool_type_def optional_def list_type_def)

lemma ann_row: "TestimonialOut sample_libs (with_id ann_doc) = Inr ann_out"
  by (simp add: TestimonialOut_def Testimonial_def with_id_def put_def ann_doc_def ann_def
      ann_out_def testimonial_dump_def opt_def str_id_def sample_libs_def required_def
      with_default_def get_def str_type_def int_range_def int_type_def optional_def)

text \<open>
  C1, as amended. With a store handle and a store that answers, over stored kittens that hold
  ASCII text under \<open>color\<close>, \<open>location\<close> and \<open>sex\<close> and text under \<open>status\<close>:
  each of the parameters color, location and sex, when provided, not empty, ASCII and free of
  regular-expression metacharacters, selects exactly the stored records whose field contains
  the value as a case-insensitive substring; status, when provided and not empty, selects
  exactly the records whose status equals it; the conditions hold together; a parameter that
  is omitted or empty imposes no constraint. The response is built from exactly the selected
  documents, in store order.
\<close>

theorem kittens_filter:
  assumes "db w \<noteq> None" and "fault (store w) = None"
    and "list_all plain_kitten_doc (collection (store w) ''kitten'')"
    and "plain_param color'" and "plain_param location'" and "plain_param sex'"
  shows "list_kittens L w color' location' sex' status' =
     kitten_rows L (filter (selected color' location' sex' status')
       (collection (store w) ''kitten''))"
proof -
  have "filter (matches L (kitten_query color' location' sex' status'))
          (collection (store w) ''kitten'')
      = filter (selected color' location' sex' status') (collection (store w) ''kitten'')"
    using assms(3) matches_selected[OF _ assms(4,5,6)]
    by (intro filter_cong) (auto simp: list_all_iff)
  then show ?thesis
    by (simp add: list_kittens_def get_documents_def assms(1,2))
qed

theorem kittens_filter_witness:
  "db sample_world \<noteq> None \<and> fault (store sample_world) = None
   \<and> list_all plain_kitten_doc (collection (store sample_world) ''kitten'')
   \<and> plain_param (Some (ascii ''smoke'')) \<and> plain_param None
   \<and> selected (Some (ascii ''smoke'')) None None (Some (ascii ''available'')) leo_doc
   \<and> list_kittens sample_libs sample_world (Some (ascii ''smoke'')) None None
         (Some (ascii ''available'')) = Inr [leo_out]"
proof -
  have d: "list_all plain_kitten_doc (collection (store sample_world) ''kitten'')"
    by (simp add: sample_kittens leo_doc_plain)
  have p: "plain_param (Some (ascii ''smoke''))" "plain_param None"
    by (simp_all add: plain_param_def literal_def ascii_text_def metachars_def ascii_def)
  have s: "selected (Some (ascii ''smoke'')) None None (Some (ascii ''available'')) leo_doc"
    by (simp add: selected_def leo_doc_texts field_contains_def field_equals_def truthy_def)
       (simp add: contains_ci_def lower_def ascii_def)
  show ?thesis
    using kittens_filter[OF sample_handle sample_healthy d p(1) p(2) p(2), of sample_libs
        "Some (ascii ''available'')"] sample_handle sample_healthy d p s
    by (simp add: sample_kittens leo_row)
qed

text \<open>
  The claim as first stated fails twice on a store that holds one kitten of colour
  "Smoke Black" and status "available". The status parameter provided as the empty text
  selects that record, whose status is not the empty text; and the colour parameter \<open>.\<close>,
  which the store reads as a regular expression, selects it too, although its colour does not
  contain a full stop.
\<close>

theorem kittens_filter_counterexample:
  "list_kittens sample_libs sample_world None None None (Some []) = Inr [leo_out]
   \<and> status leo_out \<noteq> []
   \<and> list_kittens sample_libs sample_world (Some (ascii ''.'')) None None None = Inr [leo_out]
   \<and> \<not> contains_ci (ascii ''.'') (color leo_out)"
proof -
  have q1: "kitten_query None None None (Some []) = []"
    by (simp add: kitten_query_def truthy_def)
  have q2: "kitten_query (Some (ascii ''.'')) None None None
      = [(''color'', Regex (ascii ''.'') (ascii ''i''))]"
    by (simp add: kitten_query_def truthy_def ascii_def)
  have m: "matches sample_libs [(''color'', Regex (ascii ''.'') (ascii ''i''))] leo_doc"
    by (simp add: matches_def field_holds_def cond_holds_def leo_doc_def leo_def
        kitten_dump_def get_def regex_search_def simple_pattern_def ascii_text_def
        metachars_def rx_char_def ascii_def)
  have 1: "list_kittens sample_libs sample_world None None None (Some []) = Inr [leo_out]"
    by (simp add: sample_handle list_kittens_def get_documents_def sample_healthy sample_kittens q1
        matches_def leo_row)
  have 2: "list_kittens sample_libs sample_world (Some (ascii ''.'')) None None None
      = Inr [leo_out]"
    using m
    by (simp add: sample_handle list_kittens_def get_documents_def sample_healthy sample_kittens q2 leo_row)
  have 3: "status leo_out \<noteq> []"
    by (simp add: leo_out_def leo_def kitten.defs kitten_out.defs ascii_def)
  have 4: "\<not> contains_ci (ascii ''.'') (color leo_out)"
    by (simp add: leo_out_def leo_def kitten.defs kitten_out.defs contains_ci_def lower_def
        ascii_def)
  show ?thesis
    using 1 2 3 4 by simp
qed

subsection \<open>The identifier in a response\<close>

lemma KittenOut_id:
  "KittenOut L (with_id d) = Inr k \<Longrightarrow> kitten_out.id_field k = Some (str_id (oid d))"
  by (auto simp: KittenOut_def with_id_def put_def ap_Inr_iff with_default_def get_def
      optional_def str_type_def kitten.defs kitten_out.defs split: sum.splits)

lemma TestimonialOut_id:
  "TestimonialOut L (with_id d) = Inr k \<Longrightarrow> testimonial_out.id_field k = Some (str_id (oid d))"
  by (auto simp: TestimonialOut_def with_id_def put_def ap_Inr_iff with_default_def get_def
      optional_def str_type_def testimonial.defs testimonial_out.defs split: sum.splits)

lemma kitten_json_projected:
  "kitten_out.id_field k = Some (str_id (oid d)) \<Longrightarrow> projected (kitten_out_json k) d"
  by (simp add: projected_def kitten_out_json_def kitten_dump_def get_def opt_def)

lemma testimonial_json_projected:
  "testimonial_out.id_field k = Some (str_id (oid d)) \<Longrightarrow> projected (testimonial_out_json k) d"
  by (simp add: projected_def testimonial_out_json_def testimonial_dump_def get_def opt_def)

lemma kitten_rows_projected:
  "kitten_rows L docs = Inr out \<Longrightarrow> list_all2 projected (map kitten_out_json out) docs"
proof (induction docs arbitrary: out)
  case Nil
  then show ?case by simp
next
  case (Cons d docs)
  then show ?case
    by (auto split: sum.splits intro: kitten_json_projected[OF KittenOut_id])
qed

lemma testimonial_rows_projected:
  "testimonial_rows L (map with_id docs) = Inr out
     \<Longrightarrow> list_all2 projected (map testimonial_out_json out) docs"
proof (induction docs arbitrary: out)
  case Nil
  then show ?case by simp
next
  case (Cons d docs)
  then show ?case
    by (auto split: sum.splits intro: testimonial_json_projected[OF TestimonialOut_id])
qed

text \<open>
  C8. With a store handle, every object that \<open>GET /api/kittens\<close> or
  \<open>GET /api/testimonials\<close> returns comes from one document the find helper returned, in the
  same order; it has no key \<open>_id\<close>, and under \<open>id\<close> it has the text of that document's
  identifier.
\<close>

theorem identifier_projected:
  "(db w \<noteq> None \<and> list_kittens L w c l s st = Inr out \<longrightarrow>
      (\<exists>docs. get_documents L (store w) ''kitten'' (kitten_query c l s st) 0 = Inr docs
         \<and> list_all2 projected (map kitten_out_json out) docs))
   \<and> (db w \<noteq> None \<and> list_testimonials L w limit = Inr out' \<longrightarrow>
      (\<exists>docs. get_documents L (store w) ''testimonial'' [] limit = Inr docs
         \<and> list_all2 projected (map testimonial_out_json out') docs))"
  by (auto simp: list_kittens_def list_testimonials_def split: sum.splits
      intro: kitten_rows_projected testimonial_rows_projected)


theorem identifier_projected_witness:
  "db sample_world \<noteq> None
   \<and> list_kittens sample_libs sample_world None None None None = Inr [leo_out]
   \<and> list_testimonials sample_libs sample_world 10 = Inr [ann_out]
   \<and> projected (kitten_out_json leo_out) leo_doc
   \<and> projected (testimonial_out_json ann_out) ann_doc"
proof -
  have q: "kitten_query None None None None = []"
    by (simp add: kitten_query_def truthy_def)
  have 1: "list_kittens sample_libs sample_world None None None None = Inr [leo_out]"
    by (simp add: sample_handle list_kittens_def get_documents_def sample_healthy sample_kittens q
        matches_def leo_row)
  have 2: "list_testimonials sample_libs sample_world 10 = Inr [ann_out]"
    by (simp add: sample_handle list_testimonials_def get_documents_def sample_healthy sample_testimonials
        matches_def ann_row)
  have g1: "get_documents sample_libs (store sample_world) ''kitten''
      (kitten_query None None None None) 0 = Inr [leo_doc]"
    by (simp add: get_documents_def sample_healthy sample_kittens q matches_def)
  have g2: "get_documents sample_libs (store sample_world) ''testimonial'' [] 10 = Inr [ann_doc]"
    by (simp add: get_documents_def sample_healthy sample_testimonials matches_def)
  show ?thesis
    using identifier_projected[of sample_world sample_libs None None None None "[leo_out]" 10 "[ann_out]"]
      sample_handle 1 2 g1 g2
    by simp
qed


end
